theory Spec2Isabelle
  imports Main
begin

section \<open>Exceptions and Python values\<close>

text \<open>
  The two handlers of \<open>get_model\<close> tell exceptions apart by class, so the embedding keeps
  the class and the message: \<open>ValueError\<close> and \<open>AttributeError\<close> stand for the class and
  its subclasses, \<open>OtherError\<close> for an exception of any other class (a failed import, an
  error of the database driver, \<open>TypeError\<close>, ...).
\<close>

datatype error = ValueError string | AttributeError string | OtherError string

text \<open>
  What a call hands back: an awaitable (a coroutine object or a future, whose work has not
  been run by the call) or any other value, for which \<open>PyNone\<close> stands. A call either
  raises or returns.
\<close>

datatype 'aw py_value = PyNone | Awaitable 'aw

datatype 'aw call = Raises error | Returns "'aw py_value"

section \<open>Model classes\<close>

text \<open>The members of \<open>ModelType\<close> that \<open>init_beanie\<close> compares with.\<close>

datatype ModelType = UnionDoc | Document | View

text \<open>
  A model class as \<open>init_beanie\<close> uses it. The classes are defined elsewhere in the
  library, so each method is a parameter:
  \<^item> \<open>get_model_type m k\<close> is what the \<open>k\<close>-th of the three calls
    \<open>model.get_model_type()\<close> of one loop iteration returns (\<open>k = 0, 1, 2\<close> for
    lines 79, 82, 88); \<open>None\<close> is a value equal to no member of \<open>ModelType\<close>;
  \<^item> \<open>init m database\<close>, \<open>init_model m database allow_index_dropping\<close> and
    \<open>init_view m database recreate_view\<close> are what the call of that method does:
    raise, or return a value. A coroutine function returns an awaitable and has run
    nothing yet; a plain function has run its body when it returns.
  \<open>model_name\<close> identifies the class in the record of calls.
\<close>

record ('d, 'aw) model =
  model_name :: string
  get_model_type :: "nat \<Rightarrow> ModelType option"
  init :: "'d \<Rightarrow> 'aw call"
  init_model :: "'d \<Rightarrow> bool \<Rightarrow> 'aw call"
  init_view :: "'d \<Rightarrow> bool \<Rightarrow> 'aw call"

text \<open>An entry of \<open>document_models\<close>: a class, or a string with a dotted path.\<close>

datatype ('d, 'aw) entry = Cls "('d, 'aw) model" | Ref string

section \<open>\<open>get_model\<close>\<close>

text \<open>
  \<open>str.rsplit(sep, 1)\<close> for a one-character separator: the text before the last
  separator and the text after it, or the whole string alone when it has no separator.
\<close>

definition rsplit :: "char \<Rightarrow> string \<Rightarrow> string list" where
  "rsplit sep s =
     (if sep \<in> set s
      then [rev (tl (dropWhile (\<lambda>c. c \<noteq> sep) (rev s))), rev (takeWhile (\<lambda>c. c \<noteq> sep) (rev s))]
      else [s])"

definition quoted :: "string \<Rightarrow> string" where
  "quoted s = [CHR 0x27] @ s @ [CHR 0x27]"

definition no_dot_message :: "string \<Rightarrow> string" where
  "no_dot_message dot_path =
     quoted dot_path @ '' doesn't have '.' path, eg. path.to.your.model.class''"

definition no_class_message :: "string \<Rightarrow> string \<Rightarrow> string" where
  "no_class_message module_name class_name =
     ''module '' @ quoted module_name @ '' has no class called '' @ quoted class_name"

text \<open>
  \<open>import_module\<close> is \<open>importlib.import_module\<close>: it raises, or returns a module, which
  is its attribute lookup (\<open>None\<close> where \<open>getattr\<close> raises \<open>AttributeError\<close>). The
  \<open>try\<close> block covers the unpacking of the split, the import and the attribute lookup,
  so a \<open>ValueError\<close> or an \<open>AttributeError\<close> raised by the import is caught and replaced
  as well; any other exception of the import propagates.
\<close>

definition get_model ::
  "(string \<Rightarrow> error + (string \<Rightarrow> 'm option)) \<Rightarrow> string \<Rightarrow> error + 'm" where
  "get_model import_module dot_path =
     (case rsplit CHR ''.'' dot_path of
        [module_name, class_name] \<Rightarrow>
          (case import_module module_name of
             Inl (ValueError _) \<Rightarrow> Inl (ValueError (no_dot_message dot_path))
           | Inl (AttributeError _) \<Rightarrow>
               Inl (AttributeError (no_class_message module_name class_name))
           | Inl (OtherError x) \<Rightarrow> Inl (OtherError x)
           | Inr md \<Rightarrow>
               (case md class_name of
                  Some cls \<Rightarrow> Inr cls
                | None \<Rightarrow> Inl (AttributeError (no_class_message module_name class_name))))
      | _ \<Rightarrow> Inl (ValueError (no_dot_message dot_path)))"

section \<open>\<open>init_beanie\<close>\<close>

text \<open>
  The collaborators outside the file: the module loader, the client constructor
  \<open>AsyncIOMotorClient(connection_string)\<close>, the path accessor \<open>URL(s).path\<close>, the
  subscript \<open>client[name]\<close>, and the event loop running a non-empty batch handed to
  \<open>asyncio.gather\<close> (the exception that reaches the awaiting caller, or success).
\<close>

record ('c, 'db, 'aw) env =
  import_module :: "string \<Rightarrow> error + (string \<Rightarrow> ('db option, 'aw) model option)"
  AsyncIOMotorClient :: "string \<Rightarrow> error + 'c"
  URL_path :: "string \<Rightarrow> error + string"
  getitem :: "'c \<Rightarrow> string \<Rightarrow> error + 'db"
  run_batch :: "'aw py_value list \<Rightarrow> error + unit"

text \<open>
  What \<open>init_beanie\<close> does, in program order: the calls it makes, and the \<open>await\<close> of
  \<open>asyncio.gather\<close> on the collected values. No coroutine of the batch runs before the
  \<open>Gather\<close> event: the loop has no \<open>await\<close>, and a coroutine object runs only once it has
  been handed to the event loop.
\<close>

datatype ('d, 'aw) event =
    Get_model string
  | Init string 'd
  | Init_model string 'd bool
  | Init_view string 'd bool
  | Gather "'aw py_value list"

text \<open>The state of the loop: the events so far and the list \<open>collection_inits\<close>.\<close>

type_synonym ('d, 'aw) progress = "('d, 'aw) event list \<times> 'aw py_value list"

definition and_then ::
  "error option \<times> 's \<Rightarrow> ('s \<Rightarrow> error option \<times> 's) \<Rightarrow> error option \<times> 's" where
  "and_then r f = (case r of (None, st) \<Rightarrow> f st | (Some e, st) \<Rightarrow> (Some e, st))"

text \<open>Lines 79-80: the value that \<open>init\<close> returns is dropped.\<close>

definition union_step ::
  "('d, 'aw) model \<Rightarrow> 'd \<Rightarrow> ('d, 'aw) progress \<Rightarrow> error option \<times> ('d, 'aw) progress" where
  "union_step m database st =
     (case st of (tr, ci) \<Rightarrow>
        if get_model_type m 0 = Some UnionDoc
        then (case init m database of
                Raises e \<Rightarrow> (Some e, (tr @ [Init (model_name m) database], ci))
              | Returns v \<Rightarrow> (None, (tr @ [Init (model_name m) database], ci)))
        else (None, (tr, ci)))"

text \<open>Lines 82-87.\<close>

definition document_step ::
  "('d, 'aw) model \<Rightarrow> 'd \<Rightarrow> bool \<Rightarrow> ('d, 'aw) progress \<Rightarrow> error option \<times> ('d, 'aw) progress" where
  "document_step m database allow_index_dropping st =
     (case st of (tr, ci) \<Rightarrow>
        if get_model_type m 1 = Some Document
        then (case init_model m database allow_index_dropping of
                Raises e \<Rightarrow>
                  (Some e, (tr @ [Init_model (model_name m) database allow_index_dropping], ci))
              | Returns v \<Rightarrow>
                  (None, (tr @ [Init_model (model_name m) database allow_index_dropping], ci @ [v])))
        else (None, (tr, ci)))"

text \<open>Lines 88-91.\<close>

definition view_step ::
  "('d, 'aw) model \<Rightarrow> 'd \<Rightarrow> bool \<Rightarrow> ('d, 'aw) progress \<Rightarrow> error option \<times> ('d, 'aw) progress" where
  "view_step m database recreate_views st =
     (case st of (tr, ci) \<Rightarrow>
        if get_model_type m 2 = Some View
        then (case init_view m database recreate_views of
                Raises e \<Rightarrow>
                  (Some e, (tr @ [Init_view (model_name m) database recreate_views], ci))
              | Returns v \<Rightarrow>
                  (None, (tr @ [Init_view (model_name m) database recreate_views], ci @ [v])))
        else (None, (tr, ci)))"

definition dispatch ::
  "'d \<Rightarrow> bool \<Rightarrow> bool \<Rightarrow> ('d, 'aw) model \<Rightarrow> ('d, 'aw) progress
     \<Rightarrow> error option \<times> ('d, 'aw) progress" where
  "dispatch database allow_index_dropping recreate_views m st =
     and_then
       (and_then (union_step m database st) (document_step m database allow_index_dropping))
       (view_step m database recreate_views)"

text \<open>Lines 76-77: a string is resolved, a class passes through.\<close>

definition resolve ::
  "(string \<Rightarrow> error + (string \<Rightarrow> ('d, 'aw) model option)) \<Rightarrow> ('d, 'aw) entry
     \<Rightarrow> error + ('d, 'aw) model" where
  "resolve imp x = (case x of Cls m \<Rightarrow> Inr m | Ref s \<Rightarrow> get_model imp s)"

definition resolve_events :: "('d, 'aw) entry \<Rightarrow> ('d, 'aw) event list" where
  "resolve_events x = (case x of Cls m \<Rightarrow> [] | Ref s \<Rightarrow> [Get_model s])"

text \<open>The body of the loop, lines 76-91.\<close>

definition loop_body ::
  "(string \<Rightarrow> error + (string \<Rightarrow> ('d, 'aw) model option)) \<Rightarrow> 'd \<Rightarrow> bool \<Rightarrow> bool
     \<Rightarrow> ('d, 'aw) entry \<Rightarrow> ('d, 'aw) progress \<Rightarrow> error option \<times> ('d, 'aw) progress" where
  "loop_body imp database allow_index_dropping recreate_views x st =
     (case st of (tr, ci) \<Rightarrow>
        (case resolve imp x of
           Inl e \<Rightarrow> (Some e, (tr @ resolve_events x, ci))
         | Inr m \<Rightarrow>
             dispatch database allow_index_dropping recreate_views m (tr @ resolve_events x, ci)))"

text \<open>The loop of lines 75-91: the first exception ends it.\<close>

fun for_loop ::
  "(string \<Rightarrow> error + (string \<Rightarrow> ('d, 'aw) model option)) \<Rightarrow> 'd \<Rightarrow> bool \<Rightarrow> bool
     \<Rightarrow> ('d, 'aw) entry list \<Rightarrow> ('d, 'aw) progress \<Rightarrow> error option \<times> ('d, 'aw) progress" where
  "for_loop imp database allow_index_dropping recreate_views [] st = (None, st)"
| "for_loop imp database allow_index_dropping recreate_views (x # xs) st =
     and_then (loop_body imp database allow_index_dropping recreate_views x st)
       (for_loop imp database allow_index_dropping recreate_views xs)"

text \<open>
  Lines 68-72, the value of \<open>database\<close> after them. \<open>client or AsyncIOMotorClient(...)\<close>
  keeps a client that was passed (a client object is truthy) and constructs one
  otherwise; the name of the database is \<open>URL(connection_string).path[1:]\<close>.
\<close>

definition derive_database ::
  "('c, 'db, 'aw) env \<Rightarrow> 'c option \<Rightarrow> 'db option \<Rightarrow> string option \<Rightarrow> error + 'db option" where
  "derive_database env client database connection_string =
     (case (connection_string, database) of
        (Some cs, None) \<Rightarrow>
          (case (case client of Some c \<Rightarrow> Inr c | None \<Rightarrow> AsyncIOMotorClient env cs) of
             Inl e \<Rightarrow> Inl e
           | Inr c \<Rightarrow>
               (case URL_path env cs of
                  Inl e \<Rightarrow> Inl e
                | Inr path \<Rightarrow>
                    (case getitem env c (drop 1 path) of
                       Inl e \<Rightarrow> Inl e
                     | Inr db \<Rightarrow> Inr (Some db))))
      | _ \<Rightarrow> Inr database)"

text \<open>
  Line 93. \<open>asyncio.gather\<close> of no awaitable is a future that is already done; a
  non-empty batch is run by the event loop.
\<close>

definition gather :: "('c, 'db, 'aw) env \<Rightarrow> 'aw py_value list \<Rightarrow> error + unit" where
  "gather env aws = (case aws of [] \<Rightarrow> Inr () | _ \<Rightarrow> run_batch env aws)"

text \<open>
  A run of \<open>init_beanie\<close>: how the call ends, the events in program order, and the list
  \<open>collection_inits\<close> as it is when the call ends.
\<close>

record ('d, 'aw) run =
  outcome :: "error + unit"
  trace :: "('d, 'aw) event list"
  collection_inits :: "'aw py_value list"

text \<open>Lines 74-93: the loop over the models, then the \<open>await\<close> of the collected batch.\<close>

definition initialize_models ::
  "('c, 'db, 'aw) env \<Rightarrow> 'db option \<Rightarrow> bool \<Rightarrow> bool \<Rightarrow> ('db option, 'aw) entry list
     \<Rightarrow> ('db option, 'aw) run" where
  "initialize_models env database allow_index_dropping recreate_views models =
     (case for_loop (import_module env) database allow_index_dropping recreate_views
             models ([], []) of
        (Some e, (tr, ci)) \<Rightarrow> \<lparr>outcome = Inl e, trace = tr, collection_inits = ci\<rparr>
      | (None, (tr, ci)) \<Rightarrow>
          \<lparr>outcome = gather env ci, trace = tr @ [Gather ci], collection_inits = ci\<rparr>)"

definition init_beanie ::
  "('c, 'db, 'aw) env \<Rightarrow> 'c option \<Rightarrow> 'db option \<Rightarrow> string option
     \<Rightarrow> ('db option, 'aw) entry list option \<Rightarrow> bool \<Rightarrow> bool \<Rightarrow> ('db option, 'aw) run" where
  "init_beanie env client database connection_string document_models
       allow_index_dropping recreate_views =
     (if (connection_string = None \<and> database = None)
         \<or> (connection_string \<noteq> None \<and> database \<noteq> None)
      then \<lparr>outcome =
              Inl (ValueError ''connection_string parameter or database parameter must be set''),
            trace = [], collection_inits = []\<rparr>
      else
        (case document_models of
           None \<Rightarrow>
             \<lparr>outcome = Inl (ValueError ''document_models parameter must be set''),
              trace = [], collection_inits = []\<rparr>
         | Some models \<Rightarrow>
             (case derive_database env client database connection_string of
                Inl e \<Rightarrow> \<lparr>outcome = Inl e, trace = [], collection_inits = []\<rparr>
              | Inr database' \<Rightarrow>
                  initialize_models env database' allow_index_dropping recreate_views models)))"

section \<open>What the specification expects\<close>

text \<open>
  One routine for each model, chosen by its kind: \<open>init\<close> for a union document,
  \<open>init_model\<close> with \<open>allow_index_dropping\<close> for a document, \<open>init_view\<close> with
  \<open>recreate_views\<close> for a view, none for any other kind.
\<close>

definition expected_calls ::
  "'d \<Rightarrow> bool \<Rightarrow> bool \<Rightarrow> ('d, 'aw) model \<Rightarrow> ('d, 'aw) event list" where
  "expected_calls database allow_index_dropping recreate_views m =
     (case get_model_type m 0 of
        Some UnionDoc \<Rightarrow> [Init (model_name m) database]
      | Some Document \<Rightarrow> [Init_model (model_name m) database allow_index_dropping]
      | Some View \<Rightarrow> [Init_view (model_name m) database recreate_views]
      | None \<Rightarrow> [])"

text \<open>The three calls of \<open>get_model_type\<close> in one iteration agree.\<close>

definition deterministic_kind :: "('d, 'aw) model \<Rightarrow> bool" where
  "deterministic_kind m \<longleftrightarrow>
     get_model_type m 1 = get_model_type m 0 \<and> get_model_type m 2 = get_model_type m 0"

text \<open>Only documents and views contribute to the batch: the value their routine returned.\<close>

definition returned :: "'aw call \<Rightarrow> 'aw py_value list" where
  "returned c = (case c of Returns v \<Rightarrow> [v] | Raises e \<Rightarrow> [])"

definition expected_batch ::
  "'d \<Rightarrow> bool \<Rightarrow> bool \<Rightarrow> ('d, 'aw) model \<Rightarrow> 'aw py_value list" where
  "expected_batch database allow_index_dropping recreate_views m =
     (case get_model_type m 0 of
        Some Document \<Rightarrow> returned (init_model m database allow_index_dropping)
      | Some View \<Rightarrow> returned (init_view m database recreate_views)
      | _ \<Rightarrow> [])"


definition calls_only :: "('d, 'aw) event list \<Rightarrow> bool" where
  "calls_only evs = list_all (\<lambda>e. case e of Gather b \<Rightarrow> False | _ \<Rightarrow> True) evs"

section \<open>A small application\<close>

text \<open>
  The path that \<open>URL(s).path\<close> reports for a plain URL
  \<open>scheme://authority/path?query#fragment\<close> without escapes: what follows the authority
  up to the query or fragment, and \<open>/\<close> when that is empty.
\<close>

definition plain_url_path :: "string \<Rightarrow> string" where
  "plain_url_path s =
     (let rest = (if CHR '':'' \<in> set s then tl (dropWhile (\<lambda>c. c \<noteq> CHR '':'') s) else s);
          absolute = (take 2 rest = ''//'');
          after = (if absolute then dropWhile (\<lambda>c. c \<notin> set ''/?#'') (drop 2 rest) else rest);
          path = takeWhile (\<lambda>c. c \<notin> set ''?#'') after
      in if absolute \<and> path = [] then ''/'' else path)"

text \<open>
  Classes of the three kinds. A class has only the routine of its kind: asking it for
  another one raises \<open>AttributeError\<close>. \<open>union_doc\<close> has a plain method \<open>init\<close>,
  \<open>union_coroutine\<close> a coroutine function; \<open>init_model\<close> and \<open>init_view\<close> are
  coroutine functions.
\<close>

type_synonym app_database = "(string \<times> string) option"

definition no_attribute :: "string \<Rightarrow> string call" where
  "no_attribute a = Raises (AttributeError (''type object has no attribute '' @ quoted a))"

definition union_doc :: "(app_database, string) model" where
  "union_doc =
     \<lparr>model_name = ''U'', get_model_type = (\<lambda>k. Some UnionDoc),
      init = (\<lambda>database. Returns PyNone),
      init_model = (\<lambda>database flag. no_attribute ''init_model''),
      init_view = (\<lambda>database flag. no_attribute ''init_view'')\<rparr>"

definition union_coroutine :: "(app_database, string) model" where
  "union_coroutine =
     \<lparr>model_name = ''UC'', get_model_type = (\<lambda>k. Some UnionDoc),
      init = (\<lambda>database. Returns (Awaitable ''UC.init'')),
      init_model = (\<lambda>database flag. no_attribute ''init_model''),
      init_view = (\<lambda>database flag. no_attribute ''init_view'')\<rparr>"

definition document_cls :: "(app_database, string) model" where
  "document_cls =
     \<lparr>model_name = ''D'', get_model_type = (\<lambda>k. Some Document),
      init = (\<lambda>database. no_attribute ''init''),
      init_model = (\<lambda>database flag. Returns (Awaitable ''D.init_model'')),
      init_view = (\<lambda>database flag. no_attribute ''init_view'')\<rparr>"

definition view_cls :: "(app_database, string) model" where
  "view_cls =
     \<lparr>model_name = ''V'', get_model_type = (\<lambda>k. Some View),
      init = (\<lambda>database. no_attribute ''init''),
      init_model = (\<lambda>database flag. no_attribute ''init_model''),
      init_view = (\<lambda>database flag. Returns (Awaitable ''V.init_view''))\<rparr>"

definition other_cls :: "(app_database, string) model" where
  "other_cls =
     \<lparr>model_name = ''X'', get_model_type = (\<lambda>k. None),
      init = (\<lambda>database. no_attribute ''init''),
      init_model = (\<lambda>database flag. no_attribute ''init_model''),
      init_view = (\<lambda>database flag. no_attribute ''init_view'')\<rparr>"

text \<open>
  The module \<open>app.models\<close> exposes \<open>D\<close>, \<open>V\<close> and \<open>U\<close>; no other module can be imported.
  A client is named by its connection string, a database by its client and its name;
  a client gives no database for a name that contains \<open>/\<close>, as the driver does. The
  event loop runs every batch without failure.
\<close>

definition app_models :: "string \<Rightarrow> (app_database, string) model option" where
  "app_models a =
     (if a = ''D'' then Some document_cls
      else if a = ''V'' then Some view_cls
      else if a = ''U'' then Some union_doc
      else None)"

definition app_env :: "(string, string \<times> string, string) env" where
  "app_env =
     \<lparr>import_module =
        (\<lambda>n. if n = ''app.models'' then Inr app_models
              else Inl (OtherError (''No module named '' @ quoted n))),
      AsyncIOMotorClient = (\<lambda>cs. Inr cs),
      URL_path = (\<lambda>cs. Inr (plain_url_path cs)),
      getitem =
        (\<lambda>c n. if CHR ''/'' \<in> set n
               then Inl (OtherError ''database names cannot contain the character '/' '')
               else Inr (c, n)),
      run_batch = (\<lambda>aws. Inr ())\<rparr>"

section \<open>Splitting at the last separator\<close>

lemma rsplit_no_sep: "sep \<notin> set s \<Longrightarrow> rsplit sep s = [s]"
  by (simp add: rsplit_def)

lemma rsplit_last:
  assumes "sep \<notin> set b"
  shows "rsplit sep (a @ sep # b) = [a, b]"
proof -
  have t: "takeWhile (\<lambda>c. c \<noteq> sep) (rev b @ sep # rev a) = rev b"
    using assms by (subst takeWhile_append2) auto
  have d: "dropWhile (\<lambda>c. c \<noteq> sep) (rev b @ sep # rev a) = sep # rev a"
    using assms by (subst dropWhile_append2) auto
  show ?thesis by (simp add: rsplit_def t d)
qed

section \<open>The loop only adds calls to the record\<close>


lemma and_then_None [simp]: "and_then (None, st) f = f st"
  by (simp add: and_then_def)

lemma and_then_Some [simp]: "and_then (Some e, st) f = (Some e, st)"
  by (simp add: and_then_def)

lemma and_then_assoc: "and_then (and_then r f) g = and_then r (\<lambda>st. and_then (f st) g)"
  by (cases r) (auto simp: and_then_def split: option.splits)

lemma and_then_ok:
  "and_then r f = (None, st') \<longleftrightarrow> (\<exists>st. r = (None, st) \<and> f st = (None, st'))"
  by (cases r) (auto simp: and_then_def split: option.splits)

lemma for_loop_append:
  "for_loop imp d a r (xs @ ys) st = and_then (for_loop imp d a r xs st) (for_loop imp d a r ys)"
proof (induction xs arbitrary: st)
  case Nil
  show ?case by simp
next
  case (Cons x xs)
  have "for_loop imp d a r (xs @ ys) =
          (\<lambda>st. and_then (for_loop imp d a r xs st) (for_loop imp d a r ys))"
    by (rule ext) (rule Cons.IH)
  then show ?case by (simp add: and_then_assoc)
qed

lemma calls_only_append [simp]: "calls_only (xs @ ys) \<longleftrightarrow> calls_only xs \<and> calls_only ys"
  by (simp add: calls_only_def)

lemma calls_only_simps [simp]:
  "calls_only []"
  "calls_only [Get_model s]"
  "calls_only [Init n d]"
  "calls_only [Init_model n d f]"
  "calls_only [Init_view n d f]"
  "\<not> calls_only [Gather b]"
  by (simp_all add: calls_only_def)

lemma calls_only_resolve_events [simp]: "calls_only (resolve_events x)"
  by (cases x) (simp_all add: resolve_events_def)

lemma calls_only_no_Gather: "calls_only evs \<Longrightarrow> Gather b \<notin> set evs"
  by (induction evs) (auto simp: calls_only_def)

text \<open>Each step appends calls to the events and keeps what was there.\<close>

lemma union_step_extends:
  "union_step m d (tr, ci) = (eo, (tr', ci')) \<Longrightarrow> \<exists>evs. tr' = tr @ evs \<and> calls_only evs"
  by (auto simp: union_step_def split: if_splits call.splits)

lemma document_step_extends:
  "document_step m d a (tr, ci) = (eo, (tr', ci')) \<Longrightarrow> \<exists>evs. tr' = tr @ evs \<and> calls_only evs"
  by (auto simp: document_step_def split: if_splits call.splits)

lemma view_step_extends:
  "view_step m d r (tr, ci) = (eo, (tr', ci')) \<Longrightarrow> \<exists>evs. tr' = tr @ evs \<and> calls_only evs"
  by (auto simp: view_step_def split: if_splits call.splits)

lemma and_then_extends:
  assumes r: "and_then r f = (eo, (tr', ci'))"
      and f: "\<And>tr1 ci1 eo2 tr2 ci2. f (tr1, ci1) = (eo2, (tr2, ci2)) \<Longrightarrow> \<exists>evs. tr2 = tr1 @ evs \<and> calls_only evs"
      and g: "\<And>eo1 tr1 ci1. r = (eo1, (tr1, ci1)) \<Longrightarrow> \<exists>evs. tr1 = tr @ evs \<and> calls_only evs"
  shows "\<exists>evs. tr' = tr @ evs \<and> calls_only evs"
proof -
  obtain eo1 tr1 ci1 where r1: "r = (eo1, (tr1, ci1))" by (cases r) auto
  from g[OF r1] obtain e1 where e1: "tr1 = tr @ e1" "calls_only e1" by blast
  show ?thesis
  proof (cases eo1)
    case None
    with r r1 have "f (tr1, ci1) = (eo, (tr', ci'))" by simp
    from f[OF this] obtain e2 where "tr' = tr1 @ e2" "calls_only e2" by blast
    with e1 show ?thesis by (intro exI[of _ "e1 @ e2"]) simp
  next
    case (Some e)
    with r r1 have "tr' = tr1" by simp
    with e1 show ?thesis by blast
  qed
qed

lemma dispatch_extends:
  assumes "dispatch d a r m (tr, ci) = (eo, (tr', ci'))"
  shows "\<exists>evs. tr' = tr @ evs \<and> calls_only evs"
  using assms unfolding dispatch_def
  by (elim and_then_extends) (blast dest: union_step_extends document_step_extends view_step_extends)+

lemma loop_body_extends:
  assumes "loop_body imp d a r x (tr, ci) = (eo, (tr', ci'))"
  shows "\<exists>evs. tr' = tr @ evs \<and> calls_only evs"
proof (cases "resolve imp x")
  case (Inl e)
  with assms show ?thesis by (auto simp: loop_body_def)
next
  case (Inr m)
  with assms have "dispatch d a r m (tr @ resolve_events x, ci) = (eo, (tr', ci'))"
    by (simp add: loop_body_def)
  from dispatch_extends[OF this] obtain evs where "tr' = (tr @ resolve_events x) @ evs" "calls_only evs"
    by blast
  then show ?thesis by (intro exI[of _ "resolve_events x @ evs"]) simp
qed

lemma for_loop_extends:
  "for_loop imp d a r xs (tr, ci) = (eo, (tr', ci')) \<Longrightarrow> \<exists>evs. tr' = tr @ evs \<and> calls_only evs"
proof (induction xs arbitrary: tr ci eo tr' ci')
  case Nil
  then show ?case by simp
next
  case (Cons x xs)
  from Cons.prems
  have "and_then (loop_body imp d a r x (tr, ci)) (for_loop imp d a r xs) = (eo, (tr', ci'))"
    by simp
  then show ?case
  proof (rule and_then_extends)
    fix tr1 ci1 eo2 tr2 ci2
    assume "for_loop imp d a r xs (tr1, ci1) = (eo2, (tr2, ci2))"
    then show "\<exists>evs. tr2 = tr1 @ evs \<and> calls_only evs" by (rule Cons.IH)
  next
    fix eo1 tr1 ci1
    assume "loop_body imp d a r x (tr, ci) = (eo1, (tr1, ci1))"
    then show "\<exists>evs. tr1 = tr @ evs \<and> calls_only evs" by (rule loop_body_extends)
  qed
qed

section \<open>Resolution of dotted paths\<close>

text \<open>
  C7. A reference without a separator does not unpack into two names, and \<open>get_model\<close>
  raises \<open>ValueError\<close>, whatever the loader would do. The message quotes the reference
  and shows the expected shape \<open>path.to.your.model.class\<close>.
\<close>

theorem get_model_no_separator:
  "CHR ''.'' \<notin> set dot_path \<Longrightarrow>
     get_model imp dot_path =
       Inl (ValueError
              (quoted dot_path @ '' doesn't have '.' path, eg. path.to.your.model.class''))"
  by (simp add: get_model_def rsplit_no_sep no_dot_message_def)

theorem get_model_no_separator_witness:
  "CHR ''.'' \<notin> set ''NoDotHere'' \<and>
   get_model (import_module app_env) ''NoDotHere'' =
     Inl (ValueError '''NoDotHere' doesn't have '.' path, eg. path.to.your.model.class'')"
proof -
  have h: "CHR ''.'' \<notin> set ''NoDotHere''" by simp
  show ?thesis
    using h get_model_no_separator [OF h, of "import_module app_env"]
    by (simp add: quoted_def)
qed

text \<open>
  C8. When the module named by the text before the last separator is imported and has
  no attribute named by the text after it, \<open>get_model\<close> raises \<open>AttributeError\<close> with a
  message that quotes the module name and the missing class name.
\<close>

theorem get_model_missing_class:
  assumes "CHR ''.'' \<notin> set class_name"
      and "imp module_name = Inr md"
      and "md class_name = None"
  shows "get_model imp (module_name @ ''.'' @ class_name) =
           Inl (AttributeError
                  (''module '' @ quoted module_name @ '' has no class called ''
                     @ quoted class_name))"
  using assms rsplit_last [of "CHR ''.''" "class_name" "module_name"]
  by (simp add: get_model_def no_class_message_def)

theorem get_model_missing_class_witness:
  "CHR ''.'' \<notin> set ''Nope'' \<and>
   import_module app_env ''app.models'' = Inr app_models \<and>
   app_models ''Nope'' = None \<and>
   get_model (import_module app_env) ''app.models.Nope'' =
     Inl (AttributeError (''module 'app.models' has no class called 'Nope'' @ [CHR 0x27]))"
proof -
  have h1: "CHR ''.'' \<notin> set ''Nope''" by simp
  have h2: "import_module app_env ''app.models'' = Inr app_models" by (simp add: app_env_def)
  have h3: "app_models ''Nope'' = None" by (simp add: app_models_def)
  show ?thesis
    using h1 h2 h3
      get_model_missing_class [of "''Nope''" "import_module app_env" "''app.models''" app_models,
        OF h1 h2 h3]
    by (simp add: quoted_def)
qed

text \<open>
  C9. For a reference \<open>ns.Cls\<close>, split at its last separator (\<open>ns\<close> may itself contain
  separators), whose module \<open>ns\<close> is imported and exposes \<open>Cls\<close>, \<open>get_model\<close> returns
  the very attribute that the module gives for \<open>Cls\<close>.
\<close>

theorem get_model_resolves:
  assumes "CHR ''.'' \<notin> set cls"
      and "imp ns = Inr md"
      and "md cls = Some c"
  shows "get_model imp (ns @ ''.'' @ cls) = Inr c"
  using assms rsplit_last [of "CHR ''.''" cls ns] by (simp add: get_model_def)

theorem get_model_resolves_witness:
  "CHR ''.'' \<notin> set ''D'' \<and>
   import_module app_env ''app.models'' = Inr app_models \<and>
   app_models ''D'' = Some document_cls \<and>
   get_model (import_module app_env) ''app.models.D'' = Inr document_cls"
proof -
  have h1: "CHR ''.'' \<notin> set ''D''" by simp
  have h2: "import_module app_env ''app.models'' = Inr app_models" by (simp add: app_env_def)
  have h3: "app_models ''D'' = Some document_cls" by (simp add: app_models_def)
  show ?thesis
    using h1 h2 h3
      get_model_resolves [of "''D''" "import_module app_env" "''app.models''" app_models
        document_cls, OF h1 h2 h3]
    by simp
qed

section \<open>Validation of the arguments\<close>

text \<open>
  C3. When both \<open>connection_string\<close> and \<open>database\<close> are passed, or neither is, the
  call raises \<open>ValueError\<close> at once, whatever the other arguments are. When exactly one
  of them is passed the check is passed: without models the call raises the error of the
  next check, and with models it goes on to derive the database and initialize the
  models. A target is passed when it is not \<open>None\<close>.
\<close>

theorem exactly_one_target:
  "((connection_string = None \<and> database = None) \<or>
    (connection_string \<noteq> None \<and> database \<noteq> None) \<longrightarrow>
      init_beanie env client database connection_string document_models allow_index_dropping recreate_views =
        \<lparr>outcome =
           Inl (ValueError ''connection_string parameter or database parameter must be set''),
         trace = [], collection_inits = []\<rparr>)
   \<and>
   ((connection_string \<noteq> None \<and> database = None) \<or>
    (connection_string = None \<and> database \<noteq> None) \<longrightarrow>
      init_beanie env client database connection_string None allow_index_dropping recreate_views =
        \<lparr>outcome = Inl (ValueError ''document_models parameter must be set''),
         trace = [], collection_inits = []\<rparr>
      \<and>
      init_beanie env client database connection_string (Some models) allow_index_dropping recreate_views =
        (case derive_database env client database connection_string of
           Inl e \<Rightarrow> \<lparr>outcome = Inl e, trace = [], collection_inits = []\<rparr>
         | Inr database' \<Rightarrow> initialize_models env database' allow_index_dropping recreate_views models))"
  by (auto simp: init_beanie_def)

theorem exactly_one_target_witness:
  "init_beanie app_env None None None (Some [Cls document_cls]) False False =
     \<lparr>outcome =
        Inl (ValueError ''connection_string parameter or database parameter must be set''),
      trace = [], collection_inits = []\<rparr>
   \<and>
   init_beanie app_env None (Some (''c'', ''db'')) (Some ''mongodb://host/mydb'')
       (Some [Cls document_cls]) False False =
     \<lparr>outcome =
        Inl (ValueError ''connection_string parameter or database parameter must be set''),
      trace = [], collection_inits = []\<rparr>
   \<and>
   init_beanie app_env None (Some (''c'', ''db'')) None None False False =
     \<lparr>outcome = Inl (ValueError ''document_models parameter must be set''),
      trace = [], collection_inits = []\<rparr>
   \<and>
   init_beanie app_env None None (Some ''mongodb://host/mydb'') None False False =
     \<lparr>outcome = Inl (ValueError ''document_models parameter must be set''),
      trace = [], collection_inits = []\<rparr>"
  using exactly_one_target [of None None app_env None "Some [Cls document_cls]" False False]
        exactly_one_target [of "Some ''mongodb://host/mydb''" "Some (''c'', ''db'')" app_env None
                               "Some [Cls document_cls]" False False]
        exactly_one_target [of None "Some (''c'', ''db'')" app_env None None False False]
        exactly_one_target [of "Some ''mongodb://host/mydb''" None app_env None None False False]
  by simp

section \<open>Runs that succeed\<close>

lemma init_beanie_ok:
  assumes "outcome (init_beanie env client database connection_string (Some models) allow_index_dropping recreate_views)
             = Inr ()"
  shows "\<exists>d. derive_database env client database connection_string = Inr d \<and>
             init_beanie env client database connection_string (Some models) allow_index_dropping recreate_views =
               initialize_models env d allow_index_dropping recreate_views models"
  using assms by (auto simp: init_beanie_def split: if_splits sum.splits)

lemma initialize_models_ok:
  assumes "outcome (initialize_models env d allow_index_dropping recreate_views models) = Inr ()"
  shows "\<exists>tr ci. for_loop (import_module env) d allow_index_dropping recreate_views models ([], []) = (None, (tr, ci)) \<and>
           initialize_models env d allow_index_dropping recreate_views models =
             \<lparr>outcome = Inr (), trace = tr @ [Gather ci], collection_inits = ci\<rparr>"
  using assms by (auto simp: initialize_models_def split: prod.splits option.splits)

lemma union_step_ok:
  assumes "union_step m d (tr, ci) = (None, st')"
  shows "st' = (tr @ (if get_model_type m 0 = Some UnionDoc then [Init (model_name m) d] else []), ci)
       \<and> (get_model_type m 0 = Some UnionDoc \<longrightarrow> (\<exists>v. init m d = Returns v))"
  using assms by (auto simp: union_step_def split: if_splits call.splits)

lemma document_step_ok:
  assumes "document_step m d a (tr, ci) = (None, st')"
  shows "st' = (tr @ (if get_model_type m 1 = Some Document then [Init_model (model_name m) d a] else []),
                ci @ (if get_model_type m 1 = Some Document then returned (init_model m d a) else []))"
  using assms by (auto simp: document_step_def returned_def split: if_splits call.splits)

lemma view_step_ok:
  assumes "view_step m d r (tr, ci) = (None, st')"
  shows "st' = (tr @ (if get_model_type m 2 = Some View then [Init_view (model_name m) d r] else []),
                ci @ (if get_model_type m 2 = Some View then returned (init_view m d r) else []))"
  using assms by (auto simp: view_step_def returned_def split: if_splits call.splits)

lemma dispatch_ok:
  assumes ok: "dispatch d a r m (tr, ci) = (None, st')"
      and det: "deterministic_kind m"
  shows "st' = (tr @ expected_calls d a r m, ci @ expected_batch d a r m)"
proof -
  from ok obtain s1 s2 where u: "union_step m d (tr, ci) = (None, s1)"
    and dc: "document_step m d a s1 = (None, s2)" and v: "view_step m d r s2 = (None, st')"
    unfolding dispatch_def and_then_ok by blast
  from det have k: "get_model_type m 1 = get_model_type m 0" "get_model_type m 2 = get_model_type m 0"
    by (simp_all add: deterministic_kind_def)
  note s1 = union_step_ok [OF u, THEN conjunct1]
  from dc have s2: "s2 = (tr @ (if get_model_type m 0 = Some UnionDoc then [Init (model_name m) d] else [])
              @ (if get_model_type m 0 = Some Document then [Init_model (model_name m) d a] else []),
            ci @ (if get_model_type m 0 = Some Document then returned (init_model m d a) else []))"
    unfolding s1 using document_step_ok k by fastforce
  from v have "st' = ((tr @ (if get_model_type m 0 = Some UnionDoc then [Init (model_name m) d] else [])
              @ (if get_model_type m 0 = Some Document then [Init_model (model_name m) d a] else []))
              @ (if get_model_type m 0 = Some View then [Init_view (model_name m) d r] else []),
            (ci @ (if get_model_type m 0 = Some Document then returned (init_model m d a) else []))
              @ (if get_model_type m 0 = Some View then returned (init_view m d r) else []))"
    unfolding s2 using view_step_ok k by fastforce
  then show ?thesis
    by (cases "get_model_type m 0"; cases "the (get_model_type m 0)")
       (simp_all add: expected_calls_def expected_batch_def)
qed

lemma loop_body_ok:
  assumes ok: "loop_body imp d a r x (tr, ci) = (None, st')"
  shows "\<exists>m. resolve imp x = Inr m \<and> dispatch d a r m (tr @ resolve_events x, ci) = (None, st')"
  using assms by (auto simp: loop_body_def split: sum.splits)

lemma for_loop_ok:
  assumes "for_loop imp d a r xs (tr, ci) = (None, (tr', ci'))"
      and "\<forall>x\<in>set xs. \<forall>m. resolve imp x = Inr m \<longrightarrow> deterministic_kind m"
  shows "\<exists>ms. map (resolve imp) xs = map Inr ms
            \<and> tr' = tr @ concat (map (\<lambda>(x, m). resolve_events x @ expected_calls d a r m) (zip xs ms))
            \<and> ci' = ci @ concat (map (expected_batch d a r) ms)"
  using assms
proof (induction xs arbitrary: tr ci)
  case Nil
  then show ?case by simp
next
  case (Cons x xs)
  from Cons.prems(1) obtain s1 where b: "loop_body imp d a r x (tr, ci) = (None, s1)"
    and rest: "for_loop imp d a r xs s1 = (None, (tr', ci'))"
    by (auto simp: and_then_ok)
  from loop_body_ok [OF b] obtain m where m: "resolve imp x = Inr m"
    and dm: "dispatch d a r m (tr @ resolve_events x, ci) = (None, s1)" by blast
  from Cons.prems(2) m have "deterministic_kind m" by simp
  from dispatch_ok [OF dm this]
  have s1: "s1 = ((tr @ resolve_events x) @ expected_calls d a r m, ci @ expected_batch d a r m)" .
  from Cons.prems(2) have "\<forall>x\<in>set xs. \<forall>m. resolve imp x = Inr m \<longrightarrow> deterministic_kind m"
    by simp
  from Cons.IH [OF rest [unfolded s1] this] obtain ms where
    ms: "map (resolve imp) xs = map Inr ms"
    and tr': "tr' = ((tr @ resolve_events x) @ expected_calls d a r m)
                @ concat (map (\<lambda>(x, m). resolve_events x @ expected_calls d a r m) (zip xs ms))"
    and ci': "ci' = (ci @ expected_batch d a r m) @ concat (map (expected_batch d a r) ms)"
    by blast
  show ?case
    by (rule exI [of _ "m # ms"]) (simp add: m ms tr' ci')
qed

text \<open>The definitions that a run on concrete arguments unfolds.\<close>

lemmas app_defs =
  app_env_def app_models_def union_doc_def union_coroutine_def document_cls_def view_cls_def
  other_cls_def no_attribute_def plain_url_path_def

lemmas run_defs =
  init_beanie_def derive_database_def initialize_models_def gather_def loop_body_def
  dispatch_def union_step_def document_step_def view_step_def resolve_def resolve_events_def
  get_model_def rsplit_def

section \<open>The model list\<close>

text \<open>
  C2, as stated, fails for the empty list: line 65 tests \<open>document_models is None\<close> only.
  With a database handle and the list \<open>[]\<close> the loop body never runs, \<open>asyncio.gather\<close>
  is awaited on nothing, and the call returns normally.
\<close>

theorem empty_model_list_accepted:
  "init_beanie app_env None (Some (''c'', ''db'')) None (Some []) False False =
     \<lparr>outcome = Inr (), trace = [Gather []], collection_inits = []\<rparr>"
  by (simp add: init_beanie_def derive_database_def initialize_models_def gather_def)

text \<open>
  C2, amended. A call without a model list (\<open>None\<close>) raises \<open>ValueError\<close> before any model
  is resolved and before any routine is called, whatever the other arguments are: the
  error of the target check when that fails, the error of the model-list check
  otherwise. An empty list is not rejected: once the target is validated and the
  database derived, the call awaits an empty batch and returns.
\<close>

theorem absent_model_list_rejected:
  "init_beanie env client database connection_string None allow_index_dropping recreate_views =
     \<lparr>outcome =
        Inl (ValueError
               (if (connection_string = None \<and> database = None) \<or>
                   (connection_string \<noteq> None \<and> database \<noteq> None)
                then ''connection_string parameter or database parameter must be set''
                else ''document_models parameter must be set'')),
      trace = [], collection_inits = []\<rparr>
   \<and>
   (((connection_string \<noteq> None \<and> database = None) \<or>
     (connection_string = None \<and> database \<noteq> None)) \<and>
    derive_database env client database connection_string = Inr d \<longrightarrow>
      init_beanie env client database connection_string (Some []) allow_index_dropping recreate_views =
        \<lparr>outcome = Inr (), trace = [Gather []], collection_inits = []\<rparr>)"
  by (auto simp: init_beanie_def initialize_models_def gather_def)

theorem absent_model_list_rejected_witness:
  "init_beanie app_env None None (Some ''mongodb://host/mydb'') None False False =
     \<lparr>outcome = Inl (ValueError ''document_models parameter must be set''),
      trace = [], collection_inits = []\<rparr>
   \<and>
   derive_database app_env None None (Some ''mongodb://host/mydb'') =
     Inr (Some (''mongodb://host/mydb'', ''mydb''))
   \<and>
   init_beanie app_env None None (Some ''mongodb://host/mydb'') (Some []) False False =
     \<lparr>outcome = Inr (), trace = [Gather []], collection_inits = []\<rparr>"
proof -
  have d: "derive_database app_env None None (Some ''mongodb://host/mydb'') =
             Inr (Some (''mongodb://host/mydb'', ''mydb''))"
    by (simp add: derive_database_def app_env_def plain_url_path_def)
  show ?thesis
    using d absent_model_list_rejected [of app_env None None "Some ''mongodb://host/mydb''"
              False False "Some (''mongodb://host/mydb'', ''mydb'')"]
    by simp
qed

section \<open>The database of a connection string\<close>



section \<open>One routine for each model\<close>

text \<open>
  C10. In a call that returns normally, where the three calls of \<open>get_model_type\<close> agree
  for every model, the calls made are, model after model in list order, the resolution
  of a string entry and then the one routine of the model's kind: \<open>init\<close> for a union
  document, \<open>init_model\<close> with \<open>allow_index_dropping\<close> for a document, \<open>init_view\<close> with
  \<open>recreate_views\<close> for a view, nothing for any other kind. The batch handed to
  \<open>asyncio.gather\<close> holds what the routines of the documents and views returned, and
  nothing else. A model of another kind leaves the state of the loop as it is and
  raises nothing.
\<close>

theorem one_routine_per_model:
  fixes env :: "('c, 'db, 'aw) env"
  assumes "outcome (init_beanie env client database connection_string (Some models)
                      allow_index_dropping recreate_views) = Inr ()"
      and "\<forall>x\<in>set models. \<forall>m. resolve (import_module env) x = Inr m \<longrightarrow> deterministic_kind m"
  shows "\<exists>d ms.
           derive_database env client database connection_string = Inr d
         \<and> map (resolve (import_module env)) models = map Inr ms
         \<and> trace (init_beanie env client database connection_string (Some models)
                    allow_index_dropping recreate_views) =
             concat (map (\<lambda>(x, m). resolve_events x
                                     @ expected_calls d allow_index_dropping recreate_views m)
                       (zip models ms))
             @ [Gather (concat (map (expected_batch d allow_index_dropping recreate_views) ms))]
         \<and> collection_inits (init_beanie env client database connection_string (Some models)
                    allow_index_dropping recreate_views) =
             concat (map (expected_batch d allow_index_dropping recreate_views) ms)
         \<and> (\<forall>(m :: ('db option, 'aw) model) st.
                deterministic_kind m \<and> get_model_type m 0 = None \<longrightarrow>
                dispatch d allow_index_dropping recreate_views m st = (None, st))"
proof -
  have skip: "dispatch d allow_index_dropping recreate_views m st = (None, st)"
    if "deterministic_kind m" "get_model_type m 0 = None"
    for d and m :: "('db option, 'aw) model" and st
    using that
    by (cases st)
       (simp add: dispatch_def union_step_def document_step_def view_step_def
          deterministic_kind_def)
  from init_beanie_ok [OF assms(1)] obtain d where
    d: "derive_database env client database connection_string = Inr d"
    and eq: "init_beanie env client database connection_string (Some models)
               allow_index_dropping recreate_views =
             initialize_models env d allow_index_dropping recreate_views models"
    by blast
  from assms(1) have "outcome (initialize_models env d allow_index_dropping recreate_views models)
                        = Inr ()"
    by (simp add: eq)
  from initialize_models_ok [OF this] obtain tr ci where
    loop: "for_loop (import_module env) d allow_index_dropping recreate_views models ([], [])
             = (None, (tr, ci))"
    and run: "initialize_models env d allow_index_dropping recreate_views models =
                \<lparr>outcome = Inr (), trace = tr @ [Gather ci], collection_inits = ci\<rparr>"
    by blast
  from for_loop_ok [OF loop assms(2)] obtain ms where
    "map (resolve (import_module env)) models = map Inr ms"
    "tr = [] @ concat (map (\<lambda>(x, m). resolve_events x
                                     @ expected_calls d allow_index_dropping recreate_views m)
                       (zip models ms))"
    "ci = [] @ concat (map (expected_batch d allow_index_dropping recreate_views) ms)"
    by blast
  with d skip show ?thesis
    by (intro exI [of _ d] exI [of _ ms]) (simp add: eq run)
qed

theorem one_routine_per_model_witness:
  "init_beanie app_env None (Some (''c'', ''db'')) None
       (Some [Cls union_doc, Ref ''app.models.D'', Cls view_cls, Cls other_cls]) False True =
     \<lparr>outcome = Inr (),
      trace = [Init ''U'' (Some (''c'', ''db'')), Get_model ''app.models.D'',
               Init_model ''D'' (Some (''c'', ''db'')) False,
               Init_view ''V'' (Some (''c'', ''db'')) True,
               Gather [Awaitable ''D.init_model'', Awaitable ''V.init_view'']],
      collection_inits = [Awaitable ''D.init_model'', Awaitable ''V.init_view'']\<rparr>
   \<and> (\<exists>d ms.
         derive_database app_env None (Some (''c'', ''db'')) None = Inr d
       \<and> map (resolve (import_module app_env))
           [Cls union_doc, Ref ''app.models.D'', Cls view_cls, Cls other_cls] = map Inr ms
       \<and> trace (init_beanie app_env None (Some (''c'', ''db'')) None
                  (Some [Cls union_doc, Ref ''app.models.D'', Cls view_cls, Cls other_cls])
                  False True) =
           concat (map (\<lambda>(x, m). resolve_events x @ expected_calls d False True m)
                     (zip [Cls union_doc, Ref ''app.models.D'', Cls view_cls, Cls other_cls] ms))
           @ [Gather (concat (map (expected_batch d False True) ms))]
       \<and> collection_inits (init_beanie app_env None (Some (''c'', ''db'')) None
                  (Some [Cls union_doc, Ref ''app.models.D'', Cls view_cls, Cls other_cls])
                  False True) =
           concat (map (expected_batch d False True) ms))
   \<and> dispatch (Some (''c'', ''db'')) False True other_cls ([], []) = (None, ([], []))"
proof -
  have run: "init_beanie app_env None (Some (''c'', ''db'')) None
       (Some [Cls union_doc, Ref ''app.models.D'', Cls view_cls, Cls other_cls]) False True =
     \<lparr>outcome = Inr (),
      trace = [Init ''U'' (Some (''c'', ''db'')), Get_model ''app.models.D'',
               Init_model ''D'' (Some (''c'', ''db'')) False,
               Init_view ''V'' (Some (''c'', ''db'')) True,
               Gather [Awaitable ''D.init_model'', Awaitable ''V.init_view'']],
      collection_inits = [Awaitable ''D.init_model'', Awaitable ''V.init_view'']\<rparr>"
    by (simp add: run_defs app_defs)
  have h1: "outcome (init_beanie app_env None (Some (''c'', ''db'')) None
       (Some [Cls union_doc, Ref ''app.models.D'', Cls view_cls, Cls other_cls]) False True)
        = Inr ()"
    by (simp add: run)
  have h2: "\<forall>x\<in>set [Cls union_doc, Ref ''app.models.D'', Cls view_cls, Cls other_cls].
              \<forall>m. resolve (import_module app_env) x = Inr m \<longrightarrow> deterministic_kind m"
    by (auto simp: resolve_def get_model_def rsplit_def deterministic_kind_def app_defs)
  have h3: "deterministic_kind other_cls \<and> get_model_type other_cls 0 = None"
    by (simp add: deterministic_kind_def other_cls_def)
  from one_routine_per_model [OF h1 h2] obtain d ms where
    c: "derive_database app_env None (Some (''c'', ''db'')) None = Inr d"
       "map (resolve (import_module app_env))
           [Cls union_doc, Ref ''app.models.D'', Cls view_cls, Cls other_cls] = map Inr ms"
       "trace (init_beanie app_env None (Some (''c'', ''db'')) None
                  (Some [Cls union_doc, Ref ''app.models.D'', Cls view_cls, Cls other_cls])
                  False True) =
           concat (map (\<lambda>(x, m). resolve_events x @ expected_calls d False True m)
                     (zip [Cls union_doc, Ref ''app.models.D'', Cls view_cls, Cls other_cls] ms))
           @ [Gather (concat (map (expected_batch d False True) ms))]"
       "collection_inits (init_beanie app_env None (Some (''c'', ''db'')) None
                  (Some [Cls union_doc, Ref ''app.models.D'', Cls view_cls, Cls other_cls])
                  False True) =
           concat (map (expected_batch d False True) ms)"
    and sk: "\<forall>(m :: (app_database, string) model) st.
                deterministic_kind m \<and> get_model_type m 0 = None \<longrightarrow>
                dispatch d False True m st = (None, st)"
    by blast
  from c(1) have d: "d = Some (''c'', ''db'')" by (simp add: derive_database_def)
  from sk h3 have "dispatch d False True other_cls ([], []) = (None, ([], []))" by blast
  with c run show ?thesis unfolding d by blast
qed

section \<open>Union documents come before the batch\<close>

text \<open>
  C1, as stated, fails for a union document whose \<open>init\<close> returns an awaitable: line 80
  calls \<open>model.init(database)\<close> without \<open>await\<close> and drops the value. The call below
  returns normally, the awaitable \<open>UC.init\<close> is not in the batch that is awaited, and
  the task of \<open>D\<close> is run although the union initialization has never run.
\<close>

theorem union_init_not_awaited:
  "init_beanie app_env None (Some (''c'', ''db'')) None
       (Some [Cls union_coroutine, Cls document_cls]) False False =
     \<lparr>outcome = Inr (),
      trace = [Init ''UC'' (Some (''c'', ''db'')),
               Init_model ''D'' (Some (''c'', ''db'')) False,
               Gather [Awaitable ''D.init_model'']],
      collection_inits = [Awaitable ''D.init_model'']\<rparr>
   \<and> get_model_type union_coroutine 0 = Some UnionDoc
   \<and> init union_coroutine (Some (''c'', ''db'')) = Returns (Awaitable ''UC.init'')"
  by (simp add: run_defs app_defs)

text \<open>
  C1, amended. In a call that returns normally, every model that reports \<open>UnionDoc\<close> has
  its \<open>init\<close> called in line, after the entries before it have been processed, and the
  call of \<open>init\<close> has returned before the loop goes on and before \<open>asyncio.gather\<close> is
  awaited on the batch of document and view tasks. The value that \<open>init\<close> returns is
  dropped, not awaited: when \<open>init\<close> is a plain method the union initialization is
  complete at that point.
\<close>

theorem union_init_returns_before_gather:
  assumes ok: "outcome (init_beanie env client database connection_string
                          (Some (pre @ x # post)) allow_index_dropping recreate_views) = Inr ()"
      and x: "resolve (import_module env) x = Inr m"
      and k: "get_model_type m 0 = Some UnionDoc"
  shows "\<exists>d tr1 ci1 rest.
           derive_database env client database connection_string = Inr d
         \<and> for_loop (import_module env) d allow_index_dropping recreate_views pre ([], [])
             = (None, (tr1, ci1))
         \<and> (\<exists>v. init m d = Returns v)
         \<and> union_step m d (tr1 @ resolve_events x, ci1) =
             (None, (tr1 @ resolve_events x @ [Init (model_name m) d], ci1))
         \<and> trace (init_beanie env client database connection_string
                     (Some (pre @ x # post)) allow_index_dropping recreate_views) =
             tr1 @ resolve_events x @ [Init (model_name m) d] @ rest
               @ [Gather (collection_inits (init_beanie env client database connection_string
                     (Some (pre @ x # post)) allow_index_dropping recreate_views))]
         \<and> calls_only tr1 \<and> calls_only rest"
proof -
  let ?imp = "import_module env" and ?a = allow_index_dropping and ?r = recreate_views
  from init_beanie_ok [OF ok] obtain d where
    d: "derive_database env client database connection_string = Inr d"
    and eq: "init_beanie env client database connection_string (Some (pre @ x # post)) ?a ?r =
             initialize_models env d ?a ?r (pre @ x # post)"
    by blast
  from ok have "outcome (initialize_models env d ?a ?r (pre @ x # post)) = Inr ()"
    by (simp add: eq)
  from initialize_models_ok [OF this] obtain tr ci where
    loop: "for_loop ?imp d ?a ?r (pre @ x # post) ([], []) = (None, (tr, ci))"
    and run: "initialize_models env d ?a ?r (pre @ x # post) =
                \<lparr>outcome = Inr (), trace = tr @ [Gather ci], collection_inits = ci\<rparr>"
    by blast
  from loop obtain tr1 ci1 s2 where
    p: "for_loop ?imp d ?a ?r pre ([], []) = (None, (tr1, ci1))"
    and b: "loop_body ?imp d ?a ?r x (tr1, ci1) = (None, s2)"
    and q: "for_loop ?imp d ?a ?r post s2 = (None, (tr, ci))"
    by (auto simp: for_loop_append and_then_ok)
  from loop_body_ok [OF b] x
  have "dispatch d ?a ?r m (tr1 @ resolve_events x, ci1) = (None, s2)" by auto
  then obtain su sd where
    u: "union_step m d (tr1 @ resolve_events x, ci1) = (None, su)"
    and dc: "document_step m d ?a su = (None, sd)"
    and v: "view_step m d ?r sd = (None, s2)"
    unfolding dispatch_def and_then_ok by blast
  from union_step_ok [OF u] k
  have su: "su = ((tr1 @ resolve_events x) @ [Init (model_name m) d], ci1)"
    and ret: "\<exists>v. init m d = Returns v"
    by simp_all
  obtain trd cid where sd: "sd = (trd, cid)" by (cases sd)
  obtain tr2 ci2 where s2: "s2 = (tr2, ci2)" by (cases s2)
  from document_step_extends [OF dc [unfolded su sd]] obtain e2 where
    e2: "trd = ((tr1 @ resolve_events x) @ [Init (model_name m) d]) @ e2" "calls_only e2" by blast
  from view_step_extends [OF v [unfolded sd s2]] obtain e3 where
    e3: "tr2 = trd @ e3" "calls_only e3" by blast
  from for_loop_extends [OF q [unfolded s2]] obtain e4 where
    e4: "tr = tr2 @ e4" "calls_only e4" by blast
  from for_loop_extends [OF p] have c1: "calls_only tr1" by auto
  have tr: "tr = tr1 @ resolve_events x @ [Init (model_name m) d] @ (e2 @ e3 @ e4)"
    by (simp add: e2 e3 e4)
  have c: "calls_only (e2 @ e3 @ e4)" using e2 e3 e4 by simp
  have u': "union_step m d (tr1 @ resolve_events x, ci1) =
              (None, (tr1 @ resolve_events x @ [Init (model_name m) d], ci1))"
    using u su by simp
  show ?thesis
    using d p ret c1 c u'
    by (intro exI [of _ d] exI [of _ tr1] exI [of _ ci1] exI [of _ "e2 @ e3 @ e4"])
       (simp add: eq run tr)
qed

theorem union_init_returns_before_gather_witness:
  "init_beanie app_env None (Some (''c'', ''db'')) None
       (Some ([Cls document_cls] @ Cls union_doc # [Cls view_cls])) False False =
     \<lparr>outcome = Inr (),
      trace = [Init_model ''D'' (Some (''c'', ''db'')) False,
               Init ''U'' (Some (''c'', ''db'')),
               Init_view ''V'' (Some (''c'', ''db'')) False,
               Gather [Awaitable ''D.init_model'', Awaitable ''V.init_view'']],
      collection_inits = [Awaitable ''D.init_model'', Awaitable ''V.init_view'']\<rparr>
   \<and> init union_doc (Some (''c'', ''db'')) = Returns PyNone
   \<and> (\<exists>d tr1 ci1 rest.
           derive_database app_env None (Some (''c'', ''db'')) None = Inr d
         \<and> for_loop (import_module app_env) d False False [Cls document_cls] ([], [])
             = (None, (tr1, ci1))
         \<and> (\<exists>v. init union_doc d = Returns v)
         \<and> union_step union_doc d (tr1 @ resolve_events (Cls union_doc), ci1) =
             (None, (tr1 @ resolve_events (Cls union_doc) @ [Init (model_name union_doc) d], ci1))
         \<and> trace (init_beanie app_env None (Some (''c'', ''db'')) None
                     (Some ([Cls document_cls] @ Cls union_doc # [Cls view_cls])) False False) =
             tr1 @ resolve_events (Cls union_doc) @ [Init (model_name union_doc) d] @ rest
               @ [Gather (collection_inits (init_beanie app_env None (Some (''c'', ''db'')) None
                     (Some ([Cls document_cls] @ Cls union_doc # [Cls view_cls])) False False))]
         \<and> calls_only tr1 \<and> calls_only rest)"
proof -
  have run: "init_beanie app_env None (Some (''c'', ''db'')) None
       (Some ([Cls document_cls] @ Cls union_doc # [Cls view_cls])) False False =
     \<lparr>outcome = Inr (),
      trace = [Init_model ''D'' (Some (''c'', ''db'')) False,
               Init ''U'' (Some (''c'', ''db'')),
               Init_view ''V'' (Some (''c'', ''db'')) False,
               Gather [Awaitable ''D.init_model'', Awaitable ''V.init_view'']],
      collection_inits = [Awaitable ''D.init_model'', Awaitable ''V.init_view'']\<rparr>"
    by (simp add: run_defs app_defs)
  have h1: "outcome (init_beanie app_env None (Some (''c'', ''db'')) None
       (Some ([Cls document_cls] @ Cls union_doc # [Cls view_cls])) False False) = Inr ()"
    by (simp only: run run.simps)
  have h2: "resolve (import_module app_env) (Cls union_doc) = Inr union_doc"
    by (simp add: resolve_def)
  have h3: "get_model_type union_doc 0 = Some UnionDoc"
    by (simp add: union_doc_def)
  have i: "init union_doc (Some (''c'', ''db'')) = Returns PyNone"
    by (simp add: union_doc_def)
  from run i union_init_returns_before_gather [OF h1 h2 h3] show ?thesis
    by blast
qed

section \<open>A reference without a separator\<close>

text \<open>
  C6, as stated, fails when the bad reference is not the first entry: the loop resolves
  and dispatches entry by entry, so when \<open>ValueError\<close> is raised for the third entry
  below, the task of \<open>D\<close> has been created and the union document \<open>U\<close> has been
  initialized.
\<close>

theorem invalid_reference_after_calls:
  "init_beanie app_env None (Some (''c'', ''db'')) None
       (Some [Cls document_cls, Cls union_doc, Ref ''NoDotHere'', Cls view_cls]) False False =
     \<lparr>outcome =
        Inl (ValueError '''NoDotHere' doesn't have '.' path, eg. path.to.your.model.class''),
      trace = [Init_model ''D'' (Some (''c'', ''db'')) False,
               Init ''U'' (Some (''c'', ''db'')),
               Get_model ''NoDotHere''],
      collection_inits = [Awaitable ''D.init_model'']\<rparr>"
  by (simp add: run_defs app_defs no_dot_message_def quoted_def)

text \<open>
  C6, amended. When the entries before a reference without a separator are processed
  without error, the call raises the \<open>ValueError\<close> of \<open>get_model\<close> with exactly the
  calls and the collected tasks of those entries: nothing is called for the entries
  after the reference, and \<open>asyncio.gather\<close> is never reached, so no task is run. When
  the reference is the first entry, no task has been created and no union document has
  been initialized.
\<close>

theorem invalid_reference_stops_loop:
  assumes t: "(connection_string \<noteq> None \<and> database = None) \<or>
              (connection_string = None \<and> database \<noteq> None)"
      and d: "derive_database env client database connection_string = Inr d"
      and s: "CHR ''.'' \<notin> set s"
      and p: "for_loop (import_module env) d allow_index_dropping recreate_views pre ([], [])
                = (None, (tr, ci))"
  shows "init_beanie env client database connection_string (Some (pre @ Ref s # post))
             allow_index_dropping recreate_views =
           \<lparr>outcome =
              Inl (ValueError
                     (quoted s @ '' doesn't have '.' path, eg. path.to.your.model.class'')),
            trace = tr @ [Get_model s], collection_inits = ci\<rparr>
         \<and> calls_only (tr @ [Get_model s])
         \<and> init_beanie env client database connection_string (Some (Ref s # post))
             allow_index_dropping recreate_views =
           \<lparr>outcome =
              Inl (ValueError
                     (quoted s @ '' doesn't have '.' path, eg. path.to.your.model.class'')),
            trace = [Get_model s], collection_inits = []\<rparr>"
proof -
  let ?imp = "import_module env"
  have g: "get_model ?imp s = Inl (ValueError (no_dot_message s))"
    using s by (simp add: get_model_def rsplit_no_sep)
  have b: "loop_body ?imp d allow_index_dropping recreate_views (Ref s) (tr0, ci0) =
             (Some (ValueError (no_dot_message s)), (tr0 @ [Get_model s], ci0))" for tr0 ci0
    by (simp add: loop_body_def resolve_def resolve_events_def g)
  have l: "for_loop ?imp d allow_index_dropping recreate_views (pre @ Ref s # post) ([], []) =
             (Some (ValueError (no_dot_message s)), (tr @ [Get_model s], ci))"
    by (simp add: for_loop_append p b)
  have l0: "for_loop ?imp d allow_index_dropping recreate_views (Ref s # post) ([], []) =
             (Some (ValueError (no_dot_message s)), ([Get_model s], []))"
    by (simp add: b)
  from for_loop_extends [OF p] have c: "calls_only tr" by auto
  have i: "init_beanie env client database connection_string (Some models)
               allow_index_dropping recreate_views =
             initialize_models env d allow_index_dropping recreate_views models" for models
    using t d by (auto simp: init_beanie_def)
  show ?thesis
    unfolding i initialize_models_def l l0 using c by (simp add: no_dot_message_def)
qed

theorem invalid_reference_stops_loop_witness:
  "init_beanie app_env None None (Some ''mongodb://host/mydb'')
       (Some ([Cls view_cls] @ Ref ''NoDotHere'' # [Cls document_cls])) False True =
     \<lparr>outcome =
        Inl (ValueError '''NoDotHere' doesn't have '.' path, eg. path.to.your.model.class''),
      trace = [Init_view ''V'' (Some (''mongodb://host/mydb'', ''mydb'')) True,
               Get_model ''NoDotHere''],
      collection_inits = [Awaitable ''V.init_view'']\<rparr>
   \<and> init_beanie app_env None None (Some ''mongodb://host/mydb'')
       (Some (Ref ''NoDotHere'' # [Cls document_cls])) False True =
     \<lparr>outcome =
        Inl (ValueError '''NoDotHere' doesn't have '.' path, eg. path.to.your.model.class''),
      trace = [Get_model ''NoDotHere''], collection_inits = []\<rparr>"
proof -
  have t: "(Some ''mongodb://host/mydb'' \<noteq> None \<and> (None :: (string \<times> string) option) = None) \<or>
           (Some ''mongodb://host/mydb'' = None \<and> (None :: (string \<times> string) option) \<noteq> None)"
    by simp
  have d: "derive_database app_env None None (Some ''mongodb://host/mydb'') =
             Inr (Some (''mongodb://host/mydb'', ''mydb''))"
    by (simp add: derive_database_def app_env_def plain_url_path_def)
  have s: "CHR ''.'' \<notin> set ''NoDotHere''" by simp
  have p: "for_loop (import_module app_env) (Some (''mongodb://host/mydb'', ''mydb'')) False True
             [Cls view_cls] ([], []) =
           (None, ([Init_view ''V'' (Some (''mongodb://host/mydb'', ''mydb'')) True],
                   [Awaitable ''V.init_view'']))"
    by (simp add: run_defs app_defs)
  from invalid_reference_stops_loop [OF t d s p, of "[Cls document_cls]"] show ?thesis
    by (simp add: quoted_def)
qed

end
